theory Spec2Isabelle
  imports Main "HOL-Library.Log_Nat" "HOL-Library.AList"
begin

section \<open>JavaScript numbers\<close>

text \<open>
  The scoring code computes with JavaScript numbers, that is IEEE 754 binary64 values.
  Sums and products of the (small) integers involved are exact, but a quotient such as
  \<open>23 / 40\<close> is not, and the code rounds the product of such a quotient with \<open>100\<close>.
  A finite number is modelled by the rational it denotes; \<open>double\<close> rounds a rational to
  the nearest value with a 53-bit significand, ties to the even significand, as every
  arithmetic operation of the language does.  The exponent range is left unbounded: the
  quantities of this program stay far inside the normal range.  Integers (levels,
  counters, lengths, milliseconds) are taken as they are: below \<open>2^53\<close> each is a double
  and their sums and differences are exact.
\<close>

definition pow2 :: "int \<Rightarrow> rat" where
  "pow2 k = (if 0 \<le> k then 2 ^ nat k else 1 / 2 ^ nat (- k))"

text \<open>For \<open>x > 0\<close>, \<open>binade x\<close> is the exponent \<open>e\<close> with \<open>2^e \<le> x < 2^(e+1)\<close>.\<close>

definition binade :: "rat \<Rightarrow> int" where
  "binade x = (case quotient_of x of (p, q) \<Rightarrow>
     (let d = bitlen p - bitlen q in if pow2 d \<le> x then d else d - 1))"

definition round_even :: "rat \<Rightarrow> int" where
  "round_even q = (let f = \<lfloor>q\<rfloor>; r = q - of_int f in
     if r < 1 / 2 then f else if 1 / 2 < r then f + 1 else if even f then f else f + 1)"

definition double_pos :: "rat \<Rightarrow> rat" where
  "double_pos x = (let u = pow2 (binade x - 52) in of_int (round_even (x / u)) * u)"

definition double :: "rat \<Rightarrow> rat" where
  "double x = (if x = 0 then 0 else if 0 < x then double_pos x else - double_pos (- x))"

text \<open>\<open>a / b\<close> and \<open>a * b\<close> on finite numbers, for a divisor that is not zero.\<close>

definition js_div :: "rat \<Rightarrow> rat \<Rightarrow> rat" where
  "js_div a b = double (a / b)"

definition js_mul :: "rat \<Rightarrow> rat \<Rightarrow> rat" where
  "js_mul a b = double (a * b)"

text \<open>\<open>Math.round\<close>: the nearest integer, a tie going towards \<open>+\<infinity>\<close>; \<open>Math.floor\<close>.\<close>

definition Math_round :: "rat \<Rightarrow> int" where
  "Math_round x = \<lfloor>x + 1 / 2\<rfloor>"

definition Math_floor :: "rat \<Rightarrow> int" where
  "Math_floor x = \<lfloor>x\<rfloor>"

text \<open>
  The value of \<open>Math.round(a / b)\<close> for integers \<open>a\<close> and \<open>b\<close>, where the divisor may be
  zero: \<open>0 / 0\<close> is \<open>NaN\<close>, any other \<open>a / 0\<close> an infinity, and \<open>Math.round\<close> returns
  these unchanged.
\<close>

datatype jsnum = Finite int | NaN | PosInfinity | NegInfinity

definition round_quotient :: "int \<Rightarrow> int \<Rightarrow> jsnum" where
  "round_quotient a b =
     (if b = 0 then (if a = 0 then NaN else if 0 < a then PosInfinity else NegInfinity)
      else Finite (Math_round (js_div (of_int a) (of_int b))))"


section \<open>Readiness engine\<close>

type_synonym RoleType = string
type_synonym ClearanceLevel = string

record MemberMastery =
  participant_id :: string
  name :: string
  role :: RoleType
  mastery_level :: int
  clearance :: ClearanceLevel
  days_completed :: int

record RoleBreakdown =
  role :: RoleType
  count :: int
  totalMastery :: int
  avgMastery :: rat
  readyCount :: int
  readinessPercent :: int

datatype Trend = up | down | stable

record TaskForceReadiness =
  taskForceId :: string
  taskForceName :: string
  totalMembers :: int
  overallReadiness :: int
  roleBreakdown :: "RoleBreakdown list"
  trend :: Trend
  trendValue :: int
  targetReadiness :: int
  isOnTrack :: bool
  members :: "MemberMastery list"
  lowestRole :: "RoleType option"
  highestRole :: "RoleType option"

definition MAX_MASTERY_LEVEL :: int where
  "MAX_MASTERY_LEVEL = 4"

text \<open>\<open>new Date('2026-02-02').getTime()\<close>: midnight UTC of that day, in milliseconds.\<close>

definition PROGRAM_START :: int where
  "PROGRAM_START = 1769990400000"

text \<open>The clock is an input: \<open>now\<close> is the value of \<open>new Date().getTime()\<close>.\<close>

definition getCurrentProgramDay :: "int \<Rightarrow> int" where
  "getCurrentProgramDay now =
     (let diffTime = now - PROGRAM_START;
          diffDays = Math_floor (js_div (of_int diffTime) (of_int (1000 * 60 * 60 * 24)))
      in if diffDays < 0 then 0 else min (diffDays + 1) 25)"

definition getExpectedReadiness :: "int \<Rightarrow> int" where
  "getExpectedReadiness programDay =
     (if programDay \<le> 0 then 0
      else if programDay \<ge> 25 then 100
      else if programDay \<le> 3 then 25
      else if programDay \<le> 10 then 50
      else if programDay \<le> 20 then 75
      else 100)"

text \<open>
  \<open>roleGroups\<close> is a \<open>Map\<close>: an association list in insertion order.  \<open>get\<close> is
  \<open>map_of\<close>; \<open>set\<close> replaces the value of a key in place or appends a new key.
\<close>

definition group_member :: "MemberMastery \<Rightarrow> (RoleType \<times> MemberMastery list) list
    \<Rightarrow> (RoleType \<times> MemberMastery list) list" where
  "group_member m roleGroups =
     (let group = (case map_of roleGroups (MemberMastery.role m) of Some g \<Rightarrow> g | None \<Rightarrow> [])
      in AList.update (MemberMastery.role m) (group @ [m]) roleGroups)"

text \<open>
  The body of \<open>roleGroups.forEach\<close>; the state is the array \<open>roleBreakdown\<close> and the
  variables \<open>lowestReadiness\<close>, \<open>highestReadiness\<close>, \<open>lowestRole\<close>, \<open>highestRole\<close>.
\<close>

definition breakdown_step :: "RoleType \<times> MemberMastery list
    \<Rightarrow> RoleBreakdown list \<times> int \<times> int \<times> RoleType option \<times> RoleType option
    \<Rightarrow> RoleBreakdown list \<times> int \<times> int \<times> RoleType option \<times> RoleType option" where
  "breakdown_step = (\<lambda>(role, roleMembers) (roleBreakdown, lowestReadiness, highestReadiness, lowestRole, highestRole).
     let totalMastery = fold (\<lambda>m sum. sum + MemberMastery.mastery_level m) roleMembers 0;
         avgMastery = js_div (of_int totalMastery) (of_int (int (length roleMembers)));
         readyCount = int (length (filter (\<lambda>m. MemberMastery.mastery_level m \<ge> 3) roleMembers));
         readinessPercent = Math_round (js_mul
            (js_div (of_int totalMastery) (of_int (int (length roleMembers) * MAX_MASTERY_LEVEL))) 100);
         pushed = roleBreakdown @ [\<lparr>RoleBreakdown.role = role, count = int (length roleMembers),
            totalMastery = totalMastery, avgMastery = avgMastery, readyCount = readyCount,
            readinessPercent = readinessPercent\<rparr>];
         (lowestReadiness1, lowestRole1) =
            (if readinessPercent < lowestReadiness then (readinessPercent, Some role)
             else (lowestReadiness, lowestRole));
         (highestReadiness1, highestRole1) =
            (if readinessPercent > highestReadiness then (readinessPercent, Some role)
             else (highestReadiness, highestRole))
     in (pushed, lowestReadiness1, highestReadiness1, lowestRole1, highestRole1))"

text \<open>
  \<open>roleBreakdown.sort((a, b) => a.readinessPercent - b.readinessPercent)\<close> is a stable
  ascending sort on \<open>readinessPercent\<close>, which is what \<open>sort_key\<close> computes.
\<close>

definition calculateTaskForceReadiness :: "int \<Rightarrow> string \<Rightarrow> string \<Rightarrow> MemberMastery list
    \<Rightarrow> int option \<Rightarrow> TaskForceReadiness" where
  "calculateTaskForceReadiness = (\<lambda>now taskForceId taskForceName members previousReadiness.
      if length members = 0 then
        \<lparr>taskForceId = taskForceId, taskForceName = taskForceName, totalMembers = 0,
         overallReadiness = 0, roleBreakdown = [], trend = stable, trendValue = 0,
         targetReadiness = getExpectedReadiness (getCurrentProgramDay now),
         isOnTrack = False, members = [], lowestRole = None, highestRole = None\<rparr>
      else
        let totalMasterySum = fold (\<lambda>m sum. sum + MemberMastery.mastery_level m) members 0;
            overallReadiness = Math_round (js_mul
               (js_div (of_int totalMasterySum) (of_int (int (length members) * MAX_MASTERY_LEVEL))) 100);
            roleGroups = fold group_member members [];
            (roleBreakdown, lowestReadiness, highestReadiness, lowestRole, highestRole) =
               fold breakdown_step roleGroups ([], 101, - 1, None, None);
            sorted = sort_key RoleBreakdown.readinessPercent roleBreakdown;
            (trend, trendValue) =
               (case previousReadiness of
                  None \<Rightarrow> (stable, 0)
                | Some previous \<Rightarrow>
                    (let trendValue = overallReadiness - previous
                     in (if trendValue > 0 then up else if trendValue < 0 then down else stable,
                         trendValue)));
            targetReadiness = getExpectedReadiness (getCurrentProgramDay now);
            isOnTrack = (overallReadiness \<ge> targetReadiness)
        in \<lparr>taskForceId = taskForceId, taskForceName = taskForceName,
            totalMembers = int (length members), overallReadiness = overallReadiness,
            roleBreakdown = sorted, trend = trend, trendValue = trendValue,
            targetReadiness = targetReadiness, isOnTrack = isOnTrack, members = members,
            lowestRole = lowestRole, highestRole = highestRole\<rparr>)"

text \<open>
  The result of \<open>calculateOverallProgramReadiness\<close>.  Its quotients may have a zero
  divisor, so \<open>overallReadiness\<close> and \<open>avgReadiness\<close> are \<open>jsnum\<close> values.
\<close>

record RoleAnalysis =
  total :: int
  avgReadiness :: jsnum

record ProgramReadiness =
  overallReadiness :: jsnum
  totalParticipants :: int
  taskForcesOnTrack :: int
  taskForcesAtRisk :: int
  roleAnalysis :: "(RoleType \<times> RoleAnalysis) list"

text \<open>
  The body of \<open>tf.roleBreakdown.forEach\<close>: the \<open>Map\<close> \<open>roleAnalysis\<close> holds, per role,
  the pair \<open>(total, sumReadiness)\<close>.
\<close>

definition analysis_step :: "RoleBreakdown \<Rightarrow> (RoleType \<times> int \<times> int) list
    \<Rightarrow> (RoleType \<times> int \<times> int) list" where
  "analysis_step = (\<lambda>rb roleAnalysis.
      let existing = (case map_of roleAnalysis (RoleBreakdown.role rb) of
                        Some e \<Rightarrow> e | None \<Rightarrow> (0, 0));
          total = fst existing + RoleBreakdown.count rb;
          sumReadiness = snd existing + RoleBreakdown.readinessPercent rb * RoleBreakdown.count rb
      in AList.update (RoleBreakdown.role rb) (total, sumReadiness) roleAnalysis)"

definition calculateOverallProgramReadiness :: "TaskForceReadiness list \<Rightarrow> ProgramReadiness" where
  "calculateOverallProgramReadiness = (\<lambda>taskForces.
     if length taskForces = 0 then
       \<lparr>overallReadiness = Finite 0, totalParticipants = 0, taskForcesOnTrack = 0,
        taskForcesAtRisk = 0, roleAnalysis = []\<rparr>
     else
       let totalParticipants = fold (\<lambda>tf sum. sum + totalMembers tf) taskForces 0;
           weightedReadiness =
             fold (\<lambda>tf sum. sum + TaskForceReadiness.overallReadiness tf * totalMembers tf) taskForces 0;
           overallReadiness = round_quotient weightedReadiness totalParticipants;
           taskForcesOnTrack = int (length (filter (\<lambda>tf. isOnTrack tf) taskForces));
           taskForcesAtRisk = int (length taskForces) - taskForcesOnTrack;
           roleAnalysis =
             fold (\<lambda>tf acc. fold analysis_step (TaskForceReadiness.roleBreakdown tf) acc) taskForces [];
           roleAnalysisFinal =
             map (\<lambda>(role, total, sumReadiness).
                    (role, \<lparr>total = total, avgReadiness = round_quotient sumReadiness total\<rparr>))
                 roleAnalysis
       in \<lparr>overallReadiness = overallReadiness, totalParticipants = totalParticipants,
           taskForcesOnTrack = taskForcesOnTrack, taskForcesAtRisk = taskForcesAtRisk,
           roleAnalysis = roleAnalysisFinal\<rparr>)"


section \<open>Mastery threshold evaluator\<close>

record Threshold =
  daysCompleted :: int
  aiTutorSessions :: "int option"
  artifactsSubmitted :: "int option"
  peerAssistsGiven :: "int option"
  clearance :: ClearanceLevel

text \<open>
  \<open>MASTERY_THRESHOLDS\<close> is an object with the three keys \<open>2\<close>, \<open>3\<close> and \<open>4\<close>; the
  fields \<open>level2\<close>, \<open>level3\<close>, \<open>level4\<close> are \<open>MASTERY_THRESHOLDS[2]\<close>, \<open>[3]\<close>, \<open>[4]\<close>.
  A field that an entry does not set is \<open>None\<close>.
\<close>

record Thresholds =
  level2 :: Threshold
  level3 :: Threshold
  level4 :: Threshold

definition MASTERY_THRESHOLDS :: Thresholds where
  "MASTERY_THRESHOLDS =
     \<lparr>level2 = \<lparr>daysCompleted = 3, aiTutorSessions = Some 1, artifactsSubmitted = None,
                 peerAssistsGiven = None, clearance = ''FIELD_TRAINEE''\<rparr>,
      level3 = \<lparr>daysCompleted = 10, aiTutorSessions = None, artifactsSubmitted = Some 1,
                 peerAssistsGiven = None, clearance = ''FIELD_READY''\<rparr>,
      level4 = \<lparr>daysCompleted = 20, aiTutorSessions = None, artifactsSubmitted = Some 3,
                 peerAssistsGiven = Some 2, clearance = ''SPECIALIST''\<rparr>\<rparr>"

record MasteryRecord =
  id :: string
  participant_id :: string
  mastery_level :: int
  clearance :: ClearanceLevel
  days_completed :: int
  artifacts_submitted :: int
  ai_tutor_sessions :: int
  peer_assists_given :: int

record LevelUp =
  newLevel :: int
  newClearance :: ClearanceLevel

text \<open>\<open>x ?? 0\<close> on an optional threshold.\<close>

definition or_zero :: "int option \<Rightarrow> int" where
  "or_zero x = (case x of Some v \<Rightarrow> v | None \<Rightarrow> 0)"

text \<open>\<open>calculateNewLevel\<close> of the scheduled sweep (the route); \<open>None\<close> is \<open>null\<close>.\<close>

definition calculateNewLevel :: "MasteryRecord \<Rightarrow> LevelUp option" where
  "calculateNewLevel mastery =
     (let currentLevel = MasteryRecord.mastery_level mastery;
          t4 = level4 MASTERY_THRESHOLDS;
          t3 = level3 MASTERY_THRESHOLDS;
          t2 = level2 MASTERY_THRESHOLDS
      in if currentLevel < 4 \<and>
            MasteryRecord.days_completed mastery \<ge> daysCompleted t4 \<and>
            artifacts_submitted mastery \<ge> or_zero (artifactsSubmitted t4) \<and>
            peer_assists_given mastery \<ge> or_zero (peerAssistsGiven t4)
         then Some \<lparr>newLevel = 4, newClearance = Threshold.clearance t4\<rparr>
         else if currentLevel < 3 \<and>
            MasteryRecord.days_completed mastery \<ge> daysCompleted t3 \<and>
            artifacts_submitted mastery \<ge> or_zero (artifactsSubmitted t3)
         then Some \<lparr>newLevel = 3, newClearance = Threshold.clearance t3\<rparr>
         else if currentLevel < 2 \<and>
            MasteryRecord.days_completed mastery \<ge> daysCompleted t2 \<and>
            ai_tutor_sessions mastery \<ge> or_zero (aiTutorSessions t2)
         then Some \<lparr>newLevel = 2, newClearance = Threshold.clearance t2\<rparr>
         else None)"

text \<open>
  The database update both callers issue:
  \<open>update({mastery_level: levelUp.newLevel, clearance: levelUp.newClearance})\<close> on a row.
\<close>

definition update_mastery :: "LevelUp \<Rightarrow> MasteryRecord \<Rightarrow> MasteryRecord" where
  "update_mastery levelUp row =
     row\<lparr>MasteryRecord.mastery_level := newLevel levelUp,
         MasteryRecord.clearance := newClearance levelUp\<rparr>"


section \<open>The scheduled mastery sweep\<close>

record Update =
  participantId :: string
  oldLevel :: int
  newLevel :: int
  newClearance :: ClearanceLevel

text \<open>
  The answer of \<open>select('*')\<close>: an error, or the data, which may be \<open>null\<close>.
\<close>

datatype FetchResult = FetchError | FetchData "MasteryRecord list option"

text \<open>
  The loop over the fetched records.  \<open>updateOk i\<close> says whether the update issued for
  the record at position \<open>i\<close> comes back without \<open>updateError\<close>; the database client
  reports a failed request in that field and does not throw.
\<close>

fun sweep :: "(nat \<Rightarrow> bool) \<Rightarrow> nat \<Rightarrow> MasteryRecord list \<Rightarrow> Update list \<Rightarrow> Update list" where
  "sweep updateOk i [] updates = updates"
| "sweep updateOk i (mastery # rest) updates =
     (case calculateNewLevel mastery of
        None \<Rightarrow> sweep updateOk (Suc i) rest updates
      | Some levelUp \<Rightarrow>
          if updateOk i then
            sweep updateOk (Suc i) rest
              (updates @ [\<lparr>participantId = MasteryRecord.participant_id mastery,
                           oldLevel = MasteryRecord.mastery_level mastery,
                           newLevel = LevelUp.newLevel levelUp,
                           newClearance = LevelUp.newClearance levelUp\<rparr>])
          else sweep updateOk (Suc i) rest updates)"

record Summary =
  success :: bool
  processed :: nat
  updated :: nat
  updates :: "Update list"

text \<open>A JSON error body with its status code, or the summary (status 200).\<close>

datatype Response = JsonError string nat | JsonSummary Summary

text \<open>
  \<open>GET\<close>: \<open>authHeader\<close> is the request's \<open>authorization\<close> header, \<open>cronSecret\<close> the
  environment's \<open>CRON_SECRET\<close>; an empty secret is falsy and switches the check off.
  The handler's \<open>catch\<close> answers an exception with status 500; no step of the body
  raises one here, the database reporting its failures as values.
\<close>

definition GET :: "string option \<Rightarrow> string option \<Rightarrow> FetchResult \<Rightarrow> (nat \<Rightarrow> bool) \<Rightarrow> Response" where
  "GET authHeader cronSecret fetched updateOk =
     (if (case cronSecret of
            None \<Rightarrow> False
          | Some secret \<Rightarrow> secret \<noteq> [] \<and> authHeader \<noteq> Some (''Bearer '' @ secret))
      then JsonError ''Unauthorized'' 401
      else
        case fetched of
          FetchError \<Rightarrow> JsonError ''Failed to fetch records'' 500
        | FetchData masteryRecords \<Rightarrow>
            (let records = (case masteryRecords of Some rs \<Rightarrow> rs | None \<Rightarrow> []);
                 result = sweep updateOk 0 records []
             in JsonSummary
                  \<lparr>success = True,
                   processed = (case masteryRecords of Some rs \<Rightarrow> length rs | None \<Rightarrow> 0),
                   updated = length result,
                   updates = result\<rparr>))"


section \<open>The hook \<open>useMastery\<close>\<close>

text \<open>
  The hook \<open>useMastery\<close> has its own table, with the same numbers, and compares a counter
  with the table's field directly.  A comparison with a field that is not set is false
  (\<open>x >= undefined\<close>).
\<close>

definition MASTERY_THRESHOLDS_hook :: Thresholds where
  "MASTERY_THRESHOLDS_hook =
     \<lparr>level2 = \<lparr>daysCompleted = 3, aiTutorSessions = Some 1, artifactsSubmitted = None,
                 peerAssistsGiven = None, clearance = ''FIELD_TRAINEE''\<rparr>,
      level3 = \<lparr>daysCompleted = 10, aiTutorSessions = None, artifactsSubmitted = Some 1,
                 peerAssistsGiven = None, clearance = ''FIELD_READY''\<rparr>,
      level4 = \<lparr>daysCompleted = 20, aiTutorSessions = None, artifactsSubmitted = Some 3,
                 peerAssistsGiven = Some 2, clearance = ''SPECIALIST''\<rparr>\<rparr>"

definition ge_field :: "int \<Rightarrow> int option \<Rightarrow> bool" where
  "ge_field a x = (case x of Some v \<Rightarrow> a \<ge> v | None \<Rightarrow> False)"

definition calculateNewLevel_hook :: "MasteryRecord \<Rightarrow> LevelUp option" where
  "calculateNewLevel_hook currentMastery =
     (let currentLevel = MasteryRecord.mastery_level currentMastery;
          t4 = level4 MASTERY_THRESHOLDS_hook;
          t3 = level3 MASTERY_THRESHOLDS_hook;
          t2 = level2 MASTERY_THRESHOLDS_hook
      in if currentLevel < 4 \<and>
            MasteryRecord.days_completed currentMastery \<ge> daysCompleted t4 \<and>
            ge_field (artifacts_submitted currentMastery) (artifactsSubmitted t4) \<and>
            ge_field (peer_assists_given currentMastery) (peerAssistsGiven t4)
         then Some \<lparr>LevelUp.newLevel = 4, newClearance = Threshold.clearance t4\<rparr>
         else if currentLevel < 3 \<and>
            MasteryRecord.days_completed currentMastery \<ge> daysCompleted t3 \<and>
            ge_field (artifacts_submitted currentMastery) (artifactsSubmitted t3)
         then Some \<lparr>LevelUp.newLevel = 3, newClearance = Threshold.clearance t3\<rparr>
         else if currentLevel < 2 \<and>
            MasteryRecord.days_completed currentMastery \<ge> daysCompleted t2 \<and>
            ge_field (ai_tutor_sessions currentMastery) (aiTutorSessions t2)
         then Some \<lparr>LevelUp.newLevel = 2, newClearance = Threshold.clearance t2\<rparr>
         else None)"

text \<open>
  \<open>checkForLevelUp\<close> of the hook.  The state is the hook's \<open>mastery\<close>, the participant's
  row in the database and the number of level-up notifications shown; \<open>updateOk\<close> says
  whether the database accepts the update.  The result is the returned flag and the
  new state.
\<close>

record MasteryHook =
  mastery :: "MasteryRecord option"
  row :: MasteryRecord
  notifications :: nat

definition checkForLevelUp :: "bool \<Rightarrow> MasteryHook \<Rightarrow> bool \<times> MasteryHook" where
  "checkForLevelUp updateOk h =
     (case mastery h of
        None \<Rightarrow> (False, h)
      | Some m \<Rightarrow>
          (case calculateNewLevel_hook m of
             None \<Rightarrow> (False, h)
           | Some levelUp \<Rightarrow>
               if updateOk then
                 (let data = update_mastery levelUp (row h)
                  in (True, h\<lparr>mastery := Some data, row := data,
                              notifications := notifications h + 1\<rparr>))
               else (False, h)))"



section \<open>Live-session sync, student side\<close>

record SessionState =
  currentStep :: int
  currentSection :: string
  isActive :: bool

text \<open>The payload of a \<open>state_update\<close> broadcast: a partial session state.\<close>

record StatePayload =
  currentStep :: "int option"
  currentSection :: "string option"
  isActive :: "bool option"

text \<open>The fields of the \<open>session\<close> property that the view reads; each may be absent.\<close>

record LiveSession =
  current_step :: "int option"
  current_section :: "string option"

text \<open>
  The state of \<open>StudentSessionView\<close>: its own \<open>isSyncPaused\<close>, \<open>localStep\<close> and
  \<open>localSection\<close>, the \<open>sessionState\<close> of the hook \<open>useLiveSession\<close>, and the
  \<open>session\<close> property.  Notifications, scrolling and routing are left out.

  The handlers of the channel are created by an effect of the hook.  They are closures:
  they read the \<open>sessionState\<close> of the render for which the effect last ran and, through
  the view's \<open>onStateChange\<close> of that render, its \<open>isSyncPaused\<close>.  These captured values
  are \<open>seenState\<close> and \<open>seenPaused\<close>.  The effect runs again after a render in which one
  of its dependencies has changed; until then a handler works with what it captured.
  The view's own handlers (\<open>toggleSync\<close>, \<open>rejoinSync\<close>, the click on a section) are
  those of the latest render.
\<close>

record StudentView =
  isSyncPaused :: bool
  localStep :: "int option"
  localSection :: "string option"
  sessionState :: "SessionState option"
  session :: LiveSession
  seenState :: "SessionState option"
  seenPaused :: bool

text \<open>The first render and the first run of the effect.\<close>

definition mount :: "LiveSession \<Rightarrow> StudentView" where
  "mount props =
     \<lparr>isSyncPaused = False, localStep = current_step props,
      localSection = current_section props, sessionState = None, session = props,
      seenState = None, seenPaused = False\<rparr>"

text \<open>A later run of the effect: the new handlers capture the current values.\<close>

definition effect_run :: "StudentView \<Rightarrow> StudentView" where
  "effect_run v = v\<lparr>seenState := sessionState v, seenPaused := isSyncPaused v\<rparr>"

text \<open>
  The handler of \<open>state_update\<close>, followed by the view's \<open>onStateChange\<close>: a field that
  the payload omits is taken from the captured state, or is a default.
\<close>

definition on_state_update :: "StatePayload \<Rightarrow> StudentView \<Rightarrow> StudentView" where
  "on_state_update payload v =
     (let newState =
            \<lparr>SessionState.currentStep =
               (case StatePayload.currentStep payload of
                  Some x \<Rightarrow> x
                | None \<Rightarrow> (case seenState v of
                              Some st \<Rightarrow> SessionState.currentStep st | None \<Rightarrow> 1)),
             SessionState.currentSection =
               (case StatePayload.currentSection payload of
                  Some x \<Rightarrow> x
                | None \<Rightarrow> (case seenState v of
                              Some st \<Rightarrow> SessionState.currentSection st | None \<Rightarrow> ''briefing'')),
             SessionState.isActive =
               (case StatePayload.isActive payload of
                  Some x \<Rightarrow> x
                | None \<Rightarrow> (case seenState v of
                              Some st \<Rightarrow> SessionState.isActive st | None \<Rightarrow> True))\<rparr>;
          v1 = v\<lparr>sessionState := Some newState\<rparr>
      in if \<not> seenPaused v
         then v1\<lparr>localStep := Some (SessionState.currentStep newState),
                 localSection := Some (SessionState.currentSection newState)\<rparr>
         else v1)"

text \<open>The handler of \<open>session_end\<close>.\<close>

definition on_session_end :: "StudentView \<Rightarrow> StudentView" where
  "on_session_end v =
     v\<lparr>sessionState :=
         (case sessionState v of
            Some prev \<Rightarrow> Some (prev\<lparr>SessionState.isActive := False\<rparr>)
          | None \<Rightarrow> None)\<rparr>"

text \<open>\<open>fetchSessionState\<close> when the request succeeds: it sets the hook's state only.\<close>

definition on_fetched :: "SessionState \<Rightarrow> StudentView \<Rightarrow> StudentView" where
  "on_fetched state v = v\<lparr>sessionState := Some state\<rparr>"


definition instructorSection :: "StudentView \<Rightarrow> string" where
  "instructorSection v =
     (case sessionState v of
        Some st \<Rightarrow> SessionState.currentSection st
      | None \<Rightarrow> (case current_section (session v) of Some x \<Rightarrow> x | None \<Rightarrow> ''briefing''))"


text \<open>The click on a section of the progress bar.\<close>

definition select_section :: "string \<Rightarrow> StudentView \<Rightarrow> StudentView" where
  "select_section sectionId v =
     (let v1 = v\<lparr>localSection := Some sectionId\<rparr>
      in if \<not> isSyncPaused v \<and> sectionId \<noteq> instructorSection v
         then v1\<lparr>isSyncPaused := True\<rparr>
         else v1)"

definition toggleSync :: "StudentView \<Rightarrow> StudentView" where
  "toggleSync v =
     (let v1 =
            (if isSyncPaused v then
               (case sessionState v of
                  Some st \<Rightarrow> v\<lparr>localStep := Some (SessionState.currentStep st),
                                localSection := Some (SessionState.currentSection st)\<rparr>
                | None \<Rightarrow> v)
             else v)
      in v1\<lparr>isSyncPaused := \<not> isSyncPaused v\<rparr>)"

definition rejoinSync :: "StudentView \<Rightarrow> StudentView" where
  "rejoinSync v =
     (case sessionState v of
        Some st \<Rightarrow> v\<lparr>localStep := Some (SessionState.currentStep st),
                      localSection := Some (SessionState.currentSection st),
                      isSyncPaused := False\<rparr>
      | None \<Rightarrow> v)"

text \<open>What can happen to a mounted view, and a run of such events.\<close>

datatype Event =
    StateUpdate StatePayload
  | SessionEnd
  | Fetched SessionState
  | EffectRun
  | SelectSection string
  | ToggleSync
  | RejoinSync

fun handle :: "Event \<Rightarrow> StudentView \<Rightarrow> StudentView" where
  "handle (StateUpdate payload) v = on_state_update payload v"
| "handle SessionEnd v = on_session_end v"
| "handle (Fetched state) v = on_fetched state v"
| "handle EffectRun v = effect_run v"
| "handle (SelectSection sectionId) v = select_section sectionId v"
| "handle ToggleSync v = toggleSync v"
| "handle RejoinSync v = rejoinSync v"

definition run :: "Event list \<Rightarrow> StudentView \<Rightarrow> StudentView" where
  "run events v = fold handle events v"

text \<open>
  The instructor's side of the hook, \<open>sendStateUpdate\<close>: without a channel, or for a
  participant who is not the instructor, nothing happens; otherwise the payload is
  broadcast and merged into the instructor's own state (\<open>{...prev, ...state}\<close>).  The
  result is the payload sent, if any, and the instructor's state afterwards.
\<close>

definition sendStateUpdate :: "bool \<Rightarrow> bool \<Rightarrow> StatePayload \<Rightarrow> SessionState option
    \<Rightarrow> StatePayload option \<times> SessionState option" where
  "sendStateUpdate hasChannel isInstructor state own =
     (if \<not> hasChannel \<or> \<not> isInstructor then (None, own)
      else (Some state,
            case own of
              None \<Rightarrow> None
            | Some prev \<Rightarrow>
                Some \<lparr>SessionState.currentStep =
                        (case StatePayload.currentStep state of
                           Some x \<Rightarrow> x | None \<Rightarrow> SessionState.currentStep prev),
                      SessionState.currentSection =
                        (case StatePayload.currentSection state of
                           Some x \<Rightarrow> x | None \<Rightarrow> SessionState.currentSection prev),
                      SessionState.isActive =
                        (case StatePayload.isActive state of
                           Some x \<Rightarrow> x | None \<Rightarrow> SessionState.isActive prev)\<rparr>))"




section \<open>Reference formulations\<close>





text \<open>
  For the lemmas about the code: the expression
  \<open>Math.round((total / (length * MAX_MASTERY_LEVEL)) * 100)\<close> that the function evaluates
  on all members and on each role group, and the breakdown entry that the loop pushes
  for one role group.
\<close>

definition code_percent :: "MemberMastery list \<Rightarrow> int" where
  "code_percent ms =
     Math_round (js_mul
       (js_div (of_int (sum_list (map MemberMastery.mastery_level ms)))
               (of_int (int (length ms) * MAX_MASTERY_LEVEL))) 100)"


text \<open>
  The threshold evaluator in the words of the contract: the table of level thresholds,
  highest level first, and the first entry above the current level whose thresholds
  the counters reach.  A threshold that an entry does not set is not checked.
\<close>

definition reaches :: "int \<Rightarrow> int option \<Rightarrow> bool" where
  "reaches a x = (case x of Some v \<Rightarrow> a \<ge> v | None \<Rightarrow> True)"

definition meets :: "Threshold \<Rightarrow> MasteryRecord \<Rightarrow> bool" where
  "meets t m =
     (MasteryRecord.days_completed m \<ge> daysCompleted t \<and>
      reaches (ai_tutor_sessions m) (aiTutorSessions t) \<and>
      reaches (artifacts_submitted m) (artifactsSubmitted t) \<and>
      reaches (peer_assists_given m) (peerAssistsGiven t))"

definition levels_descending :: "(int \<times> Threshold) list" where
  "levels_descending =
     [(4, level4 MASTERY_THRESHOLDS), (3, level3 MASTERY_THRESHOLDS), (2, level2 MASTERY_THRESHOLDS)]"

definition first_satisfied :: "MasteryRecord \<Rightarrow> LevelUp option" where
  "first_satisfied m =
     (case find (\<lambda>(l, t). MasteryRecord.mastery_level m < l \<and> meets t m) levels_descending of
        None \<Rightarrow> None
      | Some (l, t) \<Rightarrow> Some \<lparr>LevelUp.newLevel = l, newClearance = Threshold.clearance t\<rparr>)"

text \<open>One level-up: the record after the update that \<open>calculateNewLevel\<close> asks for.\<close>

definition level_up_once :: "MasteryRecord \<Rightarrow> MasteryRecord" where
  "level_up_once m = (case calculateNewLevel m of None \<Rightarrow> m | Some levelUp \<Rightarrow> update_mastery levelUp m)"

text \<open>
  The sweep in the words of the contract.  A request is authorized when no secret is
  configured or the header carries it.  \<open>applied\<close> are the positions and records whose
  level-up the database accepted, \<open>reported\<close> the entry of \<open>updates\<close> for such a record.
\<close>

definition authorized :: "string option \<Rightarrow> string option \<Rightarrow> bool" where
  "authorized authHeader cronSecret =
     (case cronSecret of
        None \<Rightarrow> True
      | Some secret \<Rightarrow> secret = [] \<or> authHeader = Some (''Bearer '' @ secret))"

definition reported :: "(nat \<Rightarrow> bool) \<Rightarrow> nat \<times> MasteryRecord \<Rightarrow> Update option" where
  "reported updateOk = (\<lambda>(i, m).
     case calculateNewLevel m of
       None \<Rightarrow> None
     | Some levelUp \<Rightarrow>
         if updateOk i
         then Some \<lparr>participantId = MasteryRecord.participant_id m,
                    oldLevel = MasteryRecord.mastery_level m,
                    newLevel = LevelUp.newLevel levelUp,
                    newClearance = LevelUp.newClearance levelUp\<rparr>
         else None)"

definition applied :: "(nat \<Rightarrow> bool) \<Rightarrow> MasteryRecord list \<Rightarrow> (nat \<times> MasteryRecord) list" where
  "applied updateOk rs =
     filter (\<lambda>(i, m). calculateNewLevel m \<noteq> None \<and> updateOk i) (enumerate 0 rs)"

text \<open>Sample data for the instances below.\<close>

definition member :: "RoleType \<Rightarrow> int \<Rightarrow> MemberMastery" where
  "member r l =
     \<lparr>MemberMastery.participant_id = ''p'', name = ''n'', role = r, mastery_level = l,
      clearance = ''c'', days_completed = 0\<rparr>"

definition trainee :: MasteryRecord where
  "trainee =
     \<lparr>id = ''1'', participant_id = ''p'', mastery_level = 1, clearance = ''RECRUIT'',
      days_completed = 3, artifacts_submitted = 0, ai_tutor_sessions = 1,
      peer_assists_given = 0\<rparr>"


section \<open>Rounding to a double\<close>

lemma pow2_powi: "pow2 k = 2 powi k"
  by (simp add: pow2_def power_int_def field_simps)

lemma pow2_pos: "0 < pow2 k"
  by (simp add: pow2_powi)

lemma pow2_add: "pow2 (a + b) = pow2 a * pow2 b"
  by (simp add: pow2_powi power_int_add)

lemma pow2_diff: "pow2 (a - b) = pow2 a / pow2 b"
  by (simp add: pow2_powi power_int_diff)

lemma pow2_mono: "a \<le> b \<Longrightarrow> pow2 a \<le> pow2 b"
  by (simp add: pow2_powi power_int_increasing)

lemma pow2_of_nat: "0 \<le> k \<Longrightarrow> pow2 k = of_int (2 ^ nat k)"
  by (simp add: pow2_def)

lemma binade_le:
  assumes "0 < x"
  shows "pow2 (binade x) \<le> x"
proof -
  obtain p q where pq: "quotient_of x = (p, q)" by (cases "quotient_of x")
  have q: "0 < q" using pq by (rule quotient_of_denom_pos)
  have x: "x = of_int p / of_int q" using pq by (rule quotient_of_div)
  have p: "0 < p" using assms q x by (simp add: zero_less_divide_iff)
  let ?d = "bitlen p - bitlen q"
  show ?thesis
  proof (cases "pow2 ?d \<le> x")
    case True
    then show ?thesis by (simp add: binade_def pq Let_def)
  next
    case False
    have bp: "1 \<le> bitlen p" using p bitlen_eq_zero_iff [of p] bitlen_nonneg [of p] by linarith
    have bq: "1 \<le> bitlen q" using q bitlen_eq_zero_iff [of q] bitlen_nonneg [of q] by linarith
    have "(2::int) ^ nat (bitlen p - 1) \<le> p" using bitlen_bounds [OF p] by simp
    then have "(of_int ((2::int) ^ nat (bitlen p - 1)) :: rat) \<le> of_int p" by (simp only: of_int_le_iff)
    then have lo: "pow2 (bitlen p - 1) \<le> of_int p" using bp by (simp add: pow2_of_nat)
    have "q < 2 ^ nat (bitlen q)" using bitlen_bounds [OF q] by simp
    then have "(of_int q :: rat) < of_int ((2::int) ^ nat (bitlen q))" by (simp only: of_int_less_iff)
    then have hi: "of_int q < pow2 (bitlen q)" using bq by (simp add: pow2_of_nat)
    have "pow2 (?d - 1) = pow2 (bitlen p - 1) / pow2 (bitlen q)"
      using pow2_diff [of "bitlen p - 1" "bitlen q"] by (simp add: algebra_simps)
    also have "\<dots> \<le> of_int p / pow2 (bitlen q)"
      using lo pow2_pos [of "bitlen q"] by (simp add: divide_right_mono)
    also have "\<dots> \<le> of_int p / of_int q"
      using hi p q by (simp add: frac_le)
    finally have "pow2 (?d - 1) \<le> x" using x by simp
    with False show ?thesis by (simp add: binade_def pq Let_def)
  qed
qed

lemma round_even_le: "q \<le> of_int N \<Longrightarrow> round_even q \<le> N"
proof -
  assume a: "q \<le> of_int N"
  show ?thesis
  proof (cases "q = of_int N")
    case True
    then show ?thesis by (simp add: round_even_def Let_def)
  next
    case False
    with a have "q < of_int N" by simp
    then have "\<lfloor>q\<rfloor> < N" by (simp add: floor_less_iff)
    then show ?thesis by (simp add: round_even_def Let_def)
  qed
qed

lemma round_even_nonneg: "0 \<le> q \<Longrightarrow> 0 \<le> round_even q"
  by (simp add: round_even_def Let_def)

lemma double_pos_le:
  assumes "0 < x" and "x \<le> of_int M" and "M < 2 ^ 53"
  shows "double_pos x \<le> of_int M"
proof -
  let ?e = "binade x"
  let ?u = "pow2 (?e - 52)"
  have "pow2 ?e \<le> x" using assms(1) by (rule binade_le)
  also have "x \<le> of_int M" by fact
  also have "(of_int M :: rat) < of_int (2 ^ 53)" using assms(3) by (simp only: of_int_less_iff)
  also have "(of_int (2 ^ 53) :: rat) = pow2 53" by (simp add: pow2_def)
  finally have "pow2 ?e < pow2 53" .
  then have e: "?e \<le> 52" using pow2_mono [of 53 ?e] by (cases "?e \<le> 52") auto
  have u: "0 < ?u" by (rule pow2_pos)
  have "of_int M / ?u = of_int M * pow2 (52 - ?e)"
    using pow2_diff [of 0 "?e - 52"] by (simp add: pow2_def field_simps)
  also have "\<dots> = of_int (M * 2 ^ nat (52 - ?e))" using e by (simp add: pow2_of_nat)
  finally have N: "of_int M / ?u = of_int (M * 2 ^ nat (52 - ?e))" .
  have "x / ?u \<le> of_int M / ?u" using assms(2) u by (simp add: divide_right_mono)
  then have "round_even (x / ?u) \<le> M * 2 ^ nat (52 - ?e)" using N round_even_le by simp
  then have "(of_int (round_even (x / ?u)) :: rat) \<le> of_int (M * 2 ^ nat (52 - ?e))"
    by (simp only: of_int_le_iff)
  then have "of_int (round_even (x / ?u)) * ?u \<le> of_int (M * 2 ^ nat (52 - ?e)) * ?u"
    using u by (simp add: mult_right_mono)
  also have "\<dots> = of_int M" using N u by (simp add: field_simps)
  finally show ?thesis by (simp add: double_pos_def Let_def)
qed

lemma double_pos_nonneg: "0 < x \<Longrightarrow> 0 \<le> double_pos x"
  using pow2_pos [of "binade x - 52"] round_even_nonneg [of "x / pow2 (binade x - 52)"]
  by (simp add: double_pos_def Let_def)

lemma double_nonneg: "0 \<le> x \<Longrightarrow> 0 \<le> double x"
  by (simp add: double_def double_pos_nonneg)

lemma double_le: "0 \<le> x \<Longrightarrow> x \<le> of_int M \<Longrightarrow> M < 2 ^ 53 \<Longrightarrow> double x \<le> of_int M"
  using double_pos_le [of x M] by (auto simp add: double_def)


lemma round_even_ge: "of_int N \<le> q \<Longrightarrow> N \<le> round_even q"
proof -
  assume "of_int N \<le> q"
  then have "N \<le> \<lfloor>q\<rfloor>" by (simp add: le_floor_iff)
  then show ?thesis by (simp add: round_even_def Let_def)
qed

lemma round_even_less: 
  assumes "q < of_int N - 1 / 2"
  shows "round_even q < N"
proof -
  have "q < of_int N" using assms by simp
  then have f: "\<lfloor>q\<rfloor> < N" by (simp add: floor_less_iff)
  show ?thesis
  proof (cases "\<lfloor>q\<rfloor> = N - 1")
    case True
    then have "q - of_int \<lfloor>q\<rfloor> < 1 / 2" using assms by simp
    then show ?thesis using f by (simp add: round_even_def Let_def)
  next
    case False
    with f have "\<lfloor>q\<rfloor> + 1 < N" by simp
    then show ?thesis by (simp add: round_even_def Let_def)
  qed
qed

lemma binade_bound:
  assumes "0 < x" and "x < of_int M * pow2 j" and "M \<le> 2 ^ 53"
  shows "binade x \<le> 52 + j"
proof -
  have "pow2 (binade x) \<le> x" using assms(1) by (rule binade_le)
  also have "x < of_int M * pow2 j" by fact
  also have "of_int M * pow2 j \<le> of_int (2 ^ 53) * pow2 j"
    using assms(3) pow2_pos [of j] by (simp only: of_int_le_iff mult_right_mono less_imp_le)
  also have "(of_int (2 ^ 53) :: rat) * pow2 j = pow2 (53 + j)"
    by (simp add: pow2_add) (simp add: pow2_def)
  finally have "pow2 (binade x) < pow2 (53 + j)" .
  then show ?thesis using pow2_mono [of "53 + j" "binade x"] by (cases "binade x \<le> 52 + j") auto
qed

lemma scaled_integer:
  assumes "e \<le> 52 + j"
  shows "of_int M * pow2 j / pow2 (e - 52) = of_int (M * 2 ^ nat (52 + j - e))"
proof -
  have "pow2 j / pow2 (e - 52) = pow2 (52 + j - e)"
    using pow2_diff [of j "e - 52"] by (simp add: algebra_simps)
  also have "\<dots> = of_int (2 ^ nat (52 + j - e))" using assms by (simp add: pow2_of_nat)
  finally have h: "pow2 j / pow2 (e - 52) = of_int (2 ^ nat (52 + j - e))" .
  have "of_int M * pow2 j / pow2 (e - 52) = of_int M * (pow2 j / pow2 (e - 52))" by simp
  also have "\<dots> = of_int M * of_int (2 ^ nat (52 + j - e))" by (simp only: h)
  also have "\<dots> = of_int (M * 2 ^ nat (52 + j - e))" by simp
  finally show ?thesis .
qed

lemma quotient_times: "(0::rat) < u \<Longrightarrow> c / u = n \<Longrightarrow> n * u = c"
  by auto

lemma double_pos_less:
  assumes "0 < x" and "0 < M" and "M < 2 ^ 53"
    and "x + pow2 (binade x - 53) < of_int M * pow2 j"
  shows "double_pos x < of_int M * pow2 j"
proof -
  let ?e = "binade x"
  let ?u = "pow2 (?e - 52)"
  let ?N = "M * 2 ^ nat (52 + j - ?e)"
  have u: "0 < ?u" by (rule pow2_pos)
  have half: "pow2 (?e - 53) = ?u / 2"
    using pow2_diff [of "?e - 52" 1] by (simp add: pow2_def)
  have "x < of_int M * pow2 j" using assms(4) pow2_pos [of "?e - 53"] by linarith
  then have e: "?e \<le> 52 + j" using assms(1,3) binade_bound [of x M j] by simp
  have N: "of_int M * pow2 j / ?u = of_int ?N" using e by (rule scaled_integer)
  have "(x + ?u / 2) / ?u < of_int M * pow2 j / ?u"
    using assms(4) u half by (simp add: divide_strict_right_mono)
  moreover have "(x + ?u / 2) / ?u = x / ?u + 1 / 2" using u by (simp add: field_simps)
  ultimately have "x / ?u < of_int ?N - 1 / 2" using N by linarith
  then have "round_even (x / ?u) < ?N" by (rule round_even_less)
  then have "(of_int (round_even (x / ?u)) :: rat) < of_int ?N" by (simp only: of_int_less_iff)
  then have "of_int (round_even (x / ?u)) * ?u < of_int ?N * ?u"
    using u by (simp add: mult_strict_right_mono)
  also have "of_int ?N * ?u = of_int M * pow2 j" using u N by (rule quotient_times)
  finally show ?thesis by (simp add: double_pos_def Let_def)
qed

lemma double_pos_ge:
  assumes "0 < x" and "0 < M" and "M < 2 ^ 53" and "of_int M * pow2 j \<le> x"
  shows "of_int M * pow2 j \<le> double_pos x"
proof -
  let ?e = "binade x"
  let ?u = "pow2 (?e - 52)"
  have u: "0 < ?u" by (rule pow2_pos)
  show ?thesis
  proof (cases "?e \<le> 52 + j")
    case True
    let ?N = "M * 2 ^ nat (52 + j - ?e)"
    have N: "of_int M * pow2 j / ?u = of_int ?N" using True by (rule scaled_integer)
    have "of_int M * pow2 j / ?u \<le> x / ?u" using assms(4) u by (simp add: divide_right_mono)
    then have "?N \<le> round_even (x / ?u)" using N round_even_ge by simp
    then have "(of_int ?N :: rat) \<le> of_int (round_even (x / ?u))" by (simp only: of_int_le_iff)
    then have le: "of_int ?N * ?u \<le> of_int (round_even (x / ?u)) * ?u"
      using u by (simp add: mult_right_mono)
    have "of_int M * pow2 j = of_int ?N * ?u" by (rule quotient_times [OF u N, symmetric])
    also note le
    finally show ?thesis by (simp only: double_pos_def Let_def)
  next
    case False
    then have e: "53 + j \<le> ?e" by simp
    have "pow2 ?e / ?u = pow2 52" using pow2_diff [of ?e "?e - 52"] by simp
    also have "pow2 52 = of_int (2 ^ 52)" by (simp add: pow2_def)
    finally have "of_int (2 ^ 52) = pow2 ?e / ?u" by simp
    also have "\<dots> \<le> x / ?u" using binade_le [OF assms(1)] u by (simp add: divide_right_mono)
    finally have "2 ^ 52 \<le> round_even (x / ?u)" by (rule round_even_ge)
    then have "(of_int (2 ^ 52) :: rat) \<le> of_int (round_even (x / ?u))" by (simp only: of_int_le_iff)
    then have "of_int (2 ^ 52) * ?u \<le> of_int (round_even (x / ?u)) * ?u"
      using u by (simp add: mult_right_mono)
    moreover have "(of_int (2 ^ 52) :: rat) * ?u = pow2 ?e"
      using pow2_add [of 52 "?e - 52"] by (simp add: pow2_def)
    ultimately have d: "pow2 ?e \<le> double_pos x" by (simp add: double_pos_def Let_def)
    have "of_int M * pow2 j \<le> of_int (2 ^ 53) * pow2 j"
      using assms(3) pow2_pos [of j] by (simp only: of_int_le_iff mult_right_mono less_imp_le)
    also have "(of_int (2 ^ 53) :: rat) * pow2 j = pow2 (53 + j)"
      by (simp add: pow2_add) (simp add: pow2_def)
    also have "\<dots> \<le> pow2 ?e" using e by (rule pow2_mono)
    finally show ?thesis using d by linarith
  qed
qed

lemma half_le: "(A::rat) \<le> 2 * y \<Longrightarrow> A * (1 / 2) \<le> y"
  by simp

lemma Math_round_double_quotient:
  assumes a0: "0 \<le> a" and a52: "a < 2 ^ 52" and b: "0 < b"
  shows "Math_round (double (of_int a / of_int b)) = (2 * a + b) div (2 * b)"
proof -
  let ?x = "(of_int a :: rat) / of_int b"
  let ?k = "(2 * a + b) div (2 * b)"
  have b2: "0 < 2 * b" using b by simp
  have k0: "0 \<le> ?k" using a0 b by (simp add: pos_imp_zdiv_nonneg_iff)
  have lo_int: "(2 * ?k - 1) * b \<le> 2 * a"
  proof -
    have "0 \<le> (2 * a + b) mod (2 * b)" using b2 by (rule pos_mod_sign)
    moreover have "2 * a + b = 2 * b * ?k + (2 * a + b) mod (2 * b)" by simp
    ultimately have "2 * b * ?k \<le> 2 * a + b" by linarith
    then show ?thesis by (simp add: algebra_simps)
  qed
  have hi_int: "2 * a + 1 \<le> (2 * ?k + 1) * b"
  proof -
    have "(2 * a + b) mod (2 * b) < 2 * b" using b2 by (rule pos_mod_bound)
    moreover have "2 * a + b = 2 * b * ?k + (2 * a + b) mod (2 * b)" by simp
    ultimately have "2 * a + b < 2 * b * ?k + 2 * b" by linarith
    then show ?thesis by (simp add: algebra_simps)
  qed
  have ka: "?k \<le> a"
  proof (cases "2 * ?k - 1 < 0")
    case True
    then show ?thesis using a0 by arith
  next
    case False
    have "(2 * ?k - 1) * 1 \<le> (2 * ?k - 1) * b"
      using b False by (intro mult_left_mono) simp_all
    then have "2 * ?k - 1 \<le> 2 * a" using lo_int by simp
    then show ?thesis by arith
  qed
  have br: "(0::rat) < of_int b" using b by simp
  have half: "pow2 (- 1) = 1 / 2" by (simp add: pow2_def)
  have lo: "of_int (2 * ?k - 1) * pow2 (- 1) \<le> ?x"
  proof -
    have "(of_int ((2 * ?k - 1) * b) :: rat) \<le> of_int (2 * a)" using lo_int by (simp only: of_int_le_iff)
    then have "(of_int (2 * ?k - 1) :: rat) * of_int b \<le> 2 * of_int a" by simp
    then have "(of_int (2 * ?k - 1) :: rat) \<le> 2 * of_int a / of_int b"
      using br by (simp add: pos_le_divide_eq)
    then have "(of_int (2 * ?k - 1) :: rat) \<le> 2 * ?x" by simp
    then show ?thesis unfolding half by (rule half_le)
  qed
  have hi: "?x + 1 / (2 * of_int b) \<le> of_int (2 * ?k + 1) * pow2 (- 1)"
  proof -
    have "(of_int (2 * a + 1) :: rat) \<le> of_int ((2 * ?k + 1) * b)" using hi_int by (simp only: of_int_le_iff)
    then have "2 * (of_int a :: rat) + 1 \<le> of_int (2 * ?k + 1) * of_int b" by simp
    then have "(2 * (of_int a :: rat) + 1) / (2 * of_int b) \<le> of_int (2 * ?k + 1) * of_int b / (2 * of_int b)"
      using br by (simp only: divide_right_mono mult_pos_pos zero_less_numeral less_imp_le)
    moreover have "(2 * (of_int a :: rat) + 1) / (2 * of_int b) = ?x + 1 / (2 * of_int b)"
      using br by (simp add: field_simps)
    moreover have "(of_int (2 * ?k + 1) :: rat) * of_int b / (2 * of_int b) = of_int (2 * ?k + 1) * pow2 (- 1)"
      unfolding half using br by simp
    ultimately show ?thesis by simp
  qed
  show ?thesis
  proof (cases "a = 0")
    case True
    have "\<lfloor>(1::rat) / 2\<rfloor> = 0" by (simp add: floor_eq_iff)
    then show ?thesis using True b by (simp add: double_def Math_round_def)
  next
    case False
    then have apos: "0 < a" using a0 by simp
    then have x: "0 < ?x" using br by simp
    let ?d = "double_pos ?x"
    have ulp: "pow2 (binade ?x - 53) < 1 / (2 * of_int b)"
    proof -
      have "pow2 (binade ?x - 53) = pow2 (binade ?x) / pow2 53"
        by (rule pow2_diff)
      also have "\<dots> \<le> ?x / pow2 53"
        using binade_le [OF x] pow2_pos [of 53] by (simp only: divide_right_mono less_imp_le)
      also have "?x / pow2 53 = of_int a / (of_int b * 2 ^ 53)" by (simp add: pow2_def)
      also have "\<dots> < of_int (2 ^ 52) / (of_int b * 2 ^ 53)"
        using a52 br by (simp only: of_int_less_iff divide_strict_right_mono mult_pos_pos zero_less_power zero_less_numeral)
      also have "\<dots> = 1 / (2 * of_int b)" by simp
      finally show ?thesis .
    qed
    have M53: "2 * ?k + 1 < 2 ^ 53" using ka a52 by simp
    have "?d < of_int (2 * ?k + 1) * pow2 (- 1)"
    proof (rule double_pos_less [OF x _ M53])
      show "0 < 2 * ?k + 1" using k0 by simp
      show "?x + pow2 (binade ?x - 53) < of_int (2 * ?k + 1) * pow2 (- 1)"
        using ulp hi by linarith
    qed
    then have up: "?d + 1 / 2 < of_int (?k + 1)" unfolding half by simp
    have low: "of_int ?k \<le> ?d + 1 / 2"
    proof (cases "?k = 0")
      case True
      then show ?thesis using double_pos_nonneg [OF x] by simp
    next
      case False
      then have kpos: "0 < 2 * ?k - 1" using k0 by simp
      have "2 * ?k - 1 < 2 ^ 53" using M53 by simp
      from double_pos_ge [OF x kpos this lo]
      show ?thesis unfolding half by simp
    qed
    have "\<lfloor>?d + 1 / 2\<rfloor> = ?k"
      using low up by (simp only: floor_eq_iff) simp
    then show ?thesis using x apos b by (simp add: double_def Math_round_def)
  qed
qed










section \<open>Role groups and the breakdown\<close>

lemma fold_add_sum_list: "fold (\<lambda>m sum. sum + f m) ms (a::int) = a + sum_list (map f ms)"
  by (induction ms arbitrary: a) simp_all








lemma overallReadiness_eq:
  "ms \<noteq> [] \<Longrightarrow>
   TaskForceReadiness.overallReadiness (calculateTaskForceReadiness now tid tname ms prev) =
     code_percent ms"
  by (simp add: calculateTaskForceReadiness_def Let_def code_percent_def fold_add_sum_list
      MAX_MASTERY_LEVEL_def split: prod.splits option.splits)



lemma sum_levels_bounds:
  assumes "\<forall>m \<in> set ms. 1 \<le> MemberMastery.mastery_level m \<and> MemberMastery.mastery_level m \<le> 4"
  shows "int (length ms) \<le> sum_list (map MemberMastery.mastery_level ms)
       \<and> sum_list (map MemberMastery.mastery_level ms) \<le> 4 * int (length ms)"
  using assms by (induction ms) auto

lemma Math_round_bounds: "0 \<le> x \<Longrightarrow> x \<le> of_int N \<Longrightarrow> 0 \<le> Math_round x \<and> Math_round x \<le> N"
proof -
  assume a: "0 \<le> x" "x \<le> of_int N"
  have "x + 1 / 2 < of_int (N + 1)" using a by simp
  then have "\<lfloor>x + 1 / 2\<rfloor> < N + 1" by (simp only: floor_less_iff)
  moreover have "0 \<le> \<lfloor>x + 1 / 2\<rfloor>" using a by simp
  ultimately show ?thesis by (simp add: Math_round_def)
qed

lemma code_percent_bounds:
  assumes "ms \<noteq> []"
    and "\<forall>m \<in> set ms. 1 \<le> MemberMastery.mastery_level m \<and> MemberMastery.mastery_level m \<le> 4"
  shows "0 \<le> code_percent ms \<and> code_percent ms \<le> 100"
proof -
  let ?s = "sum_list (map MemberMastery.mastery_level ms)"
  let ?n = "int (length ms)"
  have n: "0 < ?n" using assms(1) by simp
  have s: "?n \<le> ?s" "?s \<le> 4 * ?n" using sum_levels_bounds [OF assms(2)] by simp_all
  let ?q = "(of_int ?s :: rat) / of_int (?n * 4)"
  have "(of_int ?s :: rat) \<le> of_int (?n * 4)" using s(2) by simp
  then have q1: "?q \<le> of_int 1" using n by (simp add: divide_le_eq)
  have "(0::rat) \<le> of_int ?s" using s(1) n by simp
  then have q0: "0 \<le> ?q" using n by simp
  let ?d = "js_div (of_int ?s) (of_int (?n * 4))"
  have d0: "0 \<le> ?d" using q0 by (simp only: js_div_def double_nonneg)
  have d1: "?d \<le> of_int 1" unfolding js_div_def using q0 q1 by (rule double_le) simp
  let ?p = "js_mul ?d 100"
  have m0: "0 \<le> ?d * 100" using d0 by simp
  have m1: "?d * 100 \<le> of_int 100" using d1 by simp
  have p0: "0 \<le> ?p" using m0 by (simp only: js_mul_def double_nonneg)
  have p1: "?p \<le> of_int 100" unfolding js_mul_def using m0 m1 by (rule double_le) simp
  show ?thesis using Math_round_bounds [OF p0 p1] by (simp add: code_percent_def MAX_MASTERY_LEVEL_def)
qed


section \<open>The threshold evaluator\<close>

lemma calculateNewLevel_first_satisfied: "calculateNewLevel m = first_satisfied m"
  by (simp add: calculateNewLevel_def first_satisfied_def levels_descending_def meets_def
      reaches_def MASTERY_THRESHOLDS_def or_zero_def Let_def)

lemma calculateNewLevel_hook_eq: "calculateNewLevel_hook m = calculateNewLevel m"
  by (simp add: calculateNewLevel_def calculateNewLevel_hook_def MASTERY_THRESHOLDS_def
      MASTERY_THRESHOLDS_hook_def or_zero_def ge_field_def Let_def)

lemma calculateNewLevel_greater:
  "calculateNewLevel m = Some lu \<Longrightarrow>
     MasteryRecord.mastery_level m < LevelUp.newLevel lu \<and> LevelUp.newLevel lu \<in> {2, 3, 4}"
  by (auto simp add: calculateNewLevel_def Let_def split: if_splits)

lemma calculateNewLevel_after_update:
  "calculateNewLevel m = Some lu \<Longrightarrow> calculateNewLevel (update_mastery lu m) = None"
  by (auto simp add: calculateNewLevel_def update_mastery_def MASTERY_THRESHOLDS_def or_zero_def
      Let_def split: if_splits)


section \<open>Readiness of a task force\<close>

lemma code_percent_pair: "code_percent [member ''FDE'' 1, member ''AI-PM'' 4] = 63"
  by code_simp

lemma program_day_before_start: "getCurrentProgramDay 1769900000000 = 0"
  by code_simp

lemma program_day_sample: "getCurrentProgramDay 1770000000000 = 1"
  by code_simp

lemma expected_readiness_pos: "0 < d \<Longrightarrow> 0 < getExpectedReadiness d"
  by (simp add: getExpectedReadiness_def)




lemma levels_1_to_4_sum:
  assumes "\<forall>m \<in> set ms. 1 \<le> MemberMastery.mastery_level m \<and> MemberMastery.mastery_level m \<le> 4"
    and "length ms < 2 ^ 43"
  shows "sum_list (map MemberMastery.mastery_level ms) < 2 ^ 45"
proof -
  have "sum_list (map MemberMastery.mastery_level ms) \<le> 4 * int (length ms)"
    using sum_levels_bounds [OF assms(1)] by simp
  moreover have "int (length ms) < 2 ^ 43" using assms(2) by (metis of_nat_less_iff of_nat_numeral of_nat_power)
  ultimately show ?thesis by simp
qed






text \<open>
  C3.  \<open>getExpectedReadiness\<close> is a monotone step function of the program day: 0 up to
  day 0, then 25 on days 1 to 3, 50 on days 4 to 10, 75 on days 11 to 20 and 100 from
  day 21 on, so that it takes only these four values on the days 1 to 25; on day 15 it
  is 75.
\<close>

theorem expected_readiness_step_function:
  "(d \<le> 0 \<longrightarrow> getExpectedReadiness d = 0) \<and>
   (1 \<le> d \<and> d \<le> 3 \<longrightarrow> getExpectedReadiness d = 25) \<and>
   (4 \<le> d \<and> d \<le> 10 \<longrightarrow> getExpectedReadiness d = 50) \<and>
   (11 \<le> d \<and> d \<le> 20 \<longrightarrow> getExpectedReadiness d = 75) \<and>
   (21 \<le> d \<longrightarrow> getExpectedReadiness d = 100) \<and>
   (1 \<le> d \<and> d \<le> 25 \<longrightarrow> getExpectedReadiness d \<in> {25, 50, 75, 100}) \<and>
   (d \<le> e \<longrightarrow> getExpectedReadiness d \<le> getExpectedReadiness e) \<and>
   getExpectedReadiness 15 = 75"
  by (simp add: getExpectedReadiness_def)

theorem expected_readiness_step_function_witness:
  "(1::int) \<le> 3 \<and> getExpectedReadiness 3 = 25 \<and> getExpectedReadiness 4 = 50 \<and>
   getExpectedReadiness 15 = 75 \<and> getExpectedReadiness 0 = 0 \<and> getExpectedReadiness 25 = 100 \<and>
   getExpectedReadiness 3 \<le> getExpectedReadiness 4"
  using expected_readiness_step_function [of 3 4] expected_readiness_step_function [of 4 4]
    expected_readiness_step_function [of 0 4] expected_readiness_step_function [of 25 25]
  by simp

text \<open>
  C4.  For the empty list of members the function returns the zeroed record:
  \<open>overallReadiness\<close> 0, an empty \<open>roleBreakdown\<close> and \<open>isOnTrack\<close> false.  The
  function has no failing branch, so it returns a record on every input.
\<close>

theorem empty_task_force_zeroed:
  "TaskForceReadiness.overallReadiness (calculateTaskForceReadiness now tid tname [] prev) = 0 \<and>
   TaskForceReadiness.roleBreakdown (calculateTaskForceReadiness now tid tname [] prev) = [] \<and>
   isOnTrack (calculateTaskForceReadiness now tid tname [] prev) = False \<and>
   calculateTaskForceReadiness now tid tname [] prev =
     \<lparr>taskForceId = tid, taskForceName = tname, totalMembers = 0, overallReadiness = 0,
      roleBreakdown = [], trend = stable, trendValue = 0,
      targetReadiness = getExpectedReadiness (getCurrentProgramDay now),
      isOnTrack = False, members = [], lowestRole = None, highestRole = None\<rparr>"
  by (simp add: calculateTaskForceReadiness_def)

text \<open>
  C5.  For a non-empty list of members whose levels are between 1 and 4,
  \<open>overallReadiness\<close> lies between 0 and 100.
\<close>

theorem overall_readiness_in_range:
  assumes "ms \<noteq> []"
    and "\<forall>m \<in> set ms. 1 \<le> MemberMastery.mastery_level m \<and> MemberMastery.mastery_level m \<le> 4"
  shows "0 \<le> TaskForceReadiness.overallReadiness (calculateTaskForceReadiness now tid tname ms prev)
       \<and> TaskForceReadiness.overallReadiness (calculateTaskForceReadiness now tid tname ms prev) \<le> 100"
  using code_percent_bounds [OF assms] overallReadiness_eq [OF assms(1)] by simp

theorem overall_readiness_in_range_witness:
  "[member ''FDE'' 1, member ''AI-PM'' 4] \<noteq> [] \<and>
   1 \<le> MemberMastery.mastery_level (member ''FDE'' 1) \<and>
   MemberMastery.mastery_level (member ''AI-PM'' 4) \<le> 4 \<and>
   0 \<le> TaskForceReadiness.overallReadiness
          (calculateTaskForceReadiness 0 ''tf'' ''Alpha'' [member ''FDE'' 1, member ''AI-PM'' 4] None) \<and>
   TaskForceReadiness.overallReadiness
          (calculateTaskForceReadiness 0 ''tf'' ''Alpha'' [member ''FDE'' 1, member ''AI-PM'' 4] None) \<le> 100"
proof -
  have a: "[member ''FDE'' 1, member ''AI-PM'' 4] \<noteq> []" by simp
  have b: "\<forall>m \<in> set [member ''FDE'' 1, member ''AI-PM'' 4].
      1 \<le> MemberMastery.mastery_level m \<and> MemberMastery.mastery_level m \<le> 4"
    by (simp add: member_def)
  show ?thesis
    using a b overall_readiness_in_range [OF a b, of 0 "''tf''" "''Alpha''" None] by simp
qed

text \<open>
  C6, as stated, fails for the empty list before the program starts (here on 31 January
  2026): the target is 0, the readiness is 0, and the flag is false.
\<close>

theorem on_track_empty_counterexample:
  "isOnTrack (calculateTaskForceReadiness 1769900000000 ''tf'' ''Alpha'' [] None) \<noteq>
     (TaskForceReadiness.overallReadiness (calculateTaskForceReadiness 1769900000000 ''tf'' ''Alpha'' [] None)
        \<ge> targetReadiness (calculateTaskForceReadiness 1769900000000 ''tf'' ''Alpha'' [] None))"
  by (simp add: calculateTaskForceReadiness_def program_day_before_start getExpectedReadiness_def)

text \<open>
  C6, amended.  For a non-empty list of members \<open>isOnTrack\<close> is the comparison
  \<open>overallReadiness \<ge> targetReadiness\<close>, and \<open>targetReadiness\<close> is the expected readiness
  of the current program day.  For the empty list \<open>isOnTrack\<close> is false, which agrees
  with the comparison once the program has started.
\<close>

theorem on_track_flag:
  "(ms \<noteq> [] \<longrightarrow>
      isOnTrack (calculateTaskForceReadiness now tid tname ms prev) =
        (TaskForceReadiness.overallReadiness (calculateTaskForceReadiness now tid tname ms prev)
           \<ge> targetReadiness (calculateTaskForceReadiness now tid tname ms prev))) \<and>
   (ms = [] \<longrightarrow> isOnTrack (calculateTaskForceReadiness now tid tname ms prev) = False) \<and>
   (ms = [] \<and> 0 < getCurrentProgramDay now \<longrightarrow>
      isOnTrack (calculateTaskForceReadiness now tid tname ms prev) =
        (TaskForceReadiness.overallReadiness (calculateTaskForceReadiness now tid tname ms prev)
           \<ge> targetReadiness (calculateTaskForceReadiness now tid tname ms prev))) \<and>
   targetReadiness (calculateTaskForceReadiness now tid tname ms prev) =
      getExpectedReadiness (getCurrentProgramDay now)"
proof (cases "ms = []")
  case True
  then show ?thesis
    using expected_readiness_pos [of "getCurrentProgramDay now"]
    by (auto simp add: calculateTaskForceReadiness_def)
next
  case False
  then show ?thesis
    by (simp add: calculateTaskForceReadiness_def Let_def split: prod.splits option.splits)
qed

theorem on_track_flag_witness:
  "[member ''FDE'' 1, member ''AI-PM'' 4] \<noteq> [] \<and>
   isOnTrack (calculateTaskForceReadiness 1770000000000 ''tf'' ''Alpha''
                [member ''FDE'' 1, member ''AI-PM'' 4] None) \<and>
   targetReadiness (calculateTaskForceReadiness 1770000000000 ''tf'' ''Alpha''
                [member ''FDE'' 1, member ''AI-PM'' 4] None) = 25 \<and>
   0 < getCurrentProgramDay 1770000000000 \<and>
   \<not> isOnTrack (calculateTaskForceReadiness 1770000000000 ''tf'' ''Alpha'' [] None)"
  using on_track_flag [of "[member ''FDE'' 1, member ''AI-PM'' 4]" 1770000000000 "''tf''" "''Alpha''" None]
    on_track_flag [of "[]" 1770000000000 "''tf''" "''Alpha''" None]
    overallReadiness_eq [of "[member ''FDE'' 1, member ''AI-PM'' 4]" 1770000000000 "''tf''" "''Alpha''" None]
  by (simp add: program_day_sample code_percent_pair getExpectedReadiness_def)


section \<open>Level-ups\<close>

lemma level_up_once_None: "calculateNewLevel (level_up_once m) = None"
  by (cases "calculateNewLevel m") (simp_all add: level_up_once_def calculateNewLevel_after_update)

lemma level_up_once_idem: "level_up_once (level_up_once m) = level_up_once m"
  using level_up_once_None [of m] by (simp add: level_up_once_def [of "level_up_once m"])

lemma checkForLevelUp_twice:
  assumes "mastery h = Some (row h)"
  shows "checkForLevelUp ok2 (snd (checkForLevelUp True h)) = (False, snd (checkForLevelUp True h))"
proof (cases "calculateNewLevel_hook (row h)")
  case None
  then show ?thesis using assms by (simp add: checkForLevelUp_def)
next
  case (Some lu)
  then have "calculateNewLevel_hook (update_mastery lu (row h)) = None"
    by (simp add: calculateNewLevel_hook_eq calculateNewLevel_after_update)
  then show ?thesis using assms Some by (simp add: checkForLevelUp_def Let_def)
qed

text \<open>
  C2.  \<open>calculateNewLevel\<close>, in the route and in the hook, returns the first entry of the
  table of thresholds, read from level 4 down to level 2, that is above the current
  level and whose thresholds the counters reach, with the clearance of that entry, and
  \<open>null\<close> when there is none.  A returned level is above the current level.  A record at
  level 1 with three days completed and one tutor session is raised to level 2,
  \<open>FIELD_TRAINEE\<close>.
\<close>

theorem calculateNewLevel_highest_first:
  "calculateNewLevel m = first_satisfied m \<and>
   calculateNewLevel_hook m = first_satisfied m \<and>
   (\<forall>lu. calculateNewLevel m = Some lu \<longrightarrow>
      MasteryRecord.mastery_level m < LevelUp.newLevel lu \<and> LevelUp.newLevel lu \<in> {2, 3, 4}) \<and>
   (MasteryRecord.mastery_level m = 1 \<and> MasteryRecord.days_completed m = 3 \<and>
    ai_tutor_sessions m = 1 \<longrightarrow>
      calculateNewLevel m = Some \<lparr>LevelUp.newLevel = 2, newClearance = ''FIELD_TRAINEE''\<rparr>)"
proof (intro conjI allI impI)
  show "calculateNewLevel m = first_satisfied m" by (rule calculateNewLevel_first_satisfied)
  show "calculateNewLevel_hook m = first_satisfied m"
    by (simp only: calculateNewLevel_hook_eq calculateNewLevel_first_satisfied)
next
  fix lu assume "calculateNewLevel m = Some lu"
  then show "MasteryRecord.mastery_level m < LevelUp.newLevel lu"
    and "LevelUp.newLevel lu \<in> {2, 3, 4}"
    using calculateNewLevel_greater by blast+
next
  assume "MasteryRecord.mastery_level m = 1 \<and> MasteryRecord.days_completed m = 3 \<and>
    ai_tutor_sessions m = 1"
  then show "calculateNewLevel m = Some \<lparr>LevelUp.newLevel = 2, newClearance = ''FIELD_TRAINEE''\<rparr>"
    by (simp add: calculateNewLevel_def MASTERY_THRESHOLDS_def or_zero_def Let_def)
qed

theorem calculateNewLevel_highest_first_witness:
  "MasteryRecord.mastery_level trainee = 1 \<and> MasteryRecord.days_completed trainee = 3 \<and>
   ai_tutor_sessions trainee = 1 \<and>
   calculateNewLevel trainee = Some \<lparr>LevelUp.newLevel = 2, newClearance = ''FIELD_TRAINEE''\<rparr> \<and>
   first_satisfied trainee = Some \<lparr>LevelUp.newLevel = 2, newClearance = ''FIELD_TRAINEE''\<rparr> \<and>
   MasteryRecord.mastery_level trainee < 2"
proof -
  have h: "MasteryRecord.mastery_level trainee = 1 \<and> MasteryRecord.days_completed trainee = 3 \<and>
    ai_tutor_sessions trainee = 1"
    by (simp add: trainee_def)
  have c: "calculateNewLevel trainee = Some \<lparr>LevelUp.newLevel = 2, newClearance = ''FIELD_TRAINEE''\<rparr>"
    and f: "calculateNewLevel trainee = first_satisfied trainee"
    using calculateNewLevel_highest_first [of trainee] h by blast+
  show ?thesis using h c f by simp
qed

text \<open>
  C7.  After one level-up, \<open>calculateNewLevel\<close> returns \<open>null\<close> on the updated record,
  so a second level-up leaves the record as it is.  In the hook, whose \<open>mastery\<close> is the
  participant's row, a second \<open>checkForLevelUp\<close> returns false and changes nothing,
  neither the row nor the number of notifications.
\<close>

theorem level_up_idempotent:
  "calculateNewLevel (level_up_once m) = None \<and>
   calculateNewLevel_hook (level_up_once m) = None \<and>
   level_up_once (level_up_once m) = level_up_once m \<and>
   (mastery h = Some (row h) \<longrightarrow>
      fst (checkForLevelUp ok2 (snd (checkForLevelUp True h))) = False \<and>
      snd (checkForLevelUp ok2 (snd (checkForLevelUp True h))) = snd (checkForLevelUp True h))"
  by (simp add: level_up_once_None level_up_once_idem calculateNewLevel_hook_eq checkForLevelUp_twice)

theorem level_up_idempotent_witness:
  "mastery \<lparr>mastery = Some trainee, row = trainee, notifications = 0\<rparr>
     = Some (row \<lparr>mastery = Some trainee, row = trainee, notifications = 0\<rparr>) \<and>
   MasteryRecord.mastery_level (level_up_once trainee) = 2 \<and>
   calculateNewLevel (level_up_once trainee) = None \<and>
   fst (checkForLevelUp True \<lparr>mastery = Some trainee, row = trainee, notifications = 0\<rparr>) \<and>
   \<not> fst (checkForLevelUp True
      (snd (checkForLevelUp True \<lparr>mastery = Some trainee, row = trainee, notifications = 0\<rparr>))) \<and>
   notifications (snd (checkForLevelUp True
      (snd (checkForLevelUp True \<lparr>mastery = Some trainee, row = trainee, notifications = 0\<rparr>)))) = 1"
proof -
  have a: "calculateNewLevel trainee = Some \<lparr>LevelUp.newLevel = 2, newClearance = ''FIELD_TRAINEE''\<rparr>"
    by (simp add: calculateNewLevel_def MASTERY_THRESHOLDS_def or_zero_def Let_def trainee_def)
  have b: "checkForLevelUp True \<lparr>mastery = Some trainee, row = trainee, notifications = 0\<rparr> =
     (True, \<lparr>mastery = Some (update_mastery \<lparr>LevelUp.newLevel = 2, newClearance = ''FIELD_TRAINEE''\<rparr> trainee),
             row = update_mastery \<lparr>LevelUp.newLevel = 2, newClearance = ''FIELD_TRAINEE''\<rparr> trainee,
             notifications = 1\<rparr>)"
    by (simp add: checkForLevelUp_def calculateNewLevel_hook_eq a Let_def)
  show ?thesis
    using level_up_idempotent [of trainee "\<lparr>mastery = Some trainee, row = trainee, notifications = 0\<rparr>" True]
    by (simp add: b level_up_once_def a update_mastery_def)
qed


section \<open>Readiness of the program\<close>

lemma program_readiness_nonempty:
  assumes "tfs \<noteq> []"
  shows "calculateOverallProgramReadiness tfs =
     \<lparr>overallReadiness =
        round_quotient (sum_list (map (\<lambda>tf. TaskForceReadiness.overallReadiness tf * totalMembers tf) tfs))
                       (sum_list (map totalMembers tfs)),
      totalParticipants = sum_list (map totalMembers tfs),
      taskForcesOnTrack = int (length (filter isOnTrack tfs)),
      taskForcesAtRisk = int (length tfs) - int (length (filter isOnTrack tfs)),
      roleAnalysis =
        map (\<lambda>(role, total, sumReadiness).
               (role, \<lparr>total = total, avgReadiness = round_quotient sumReadiness total\<rparr>))
            (fold (\<lambda>tf acc. fold analysis_step (TaskForceReadiness.roleBreakdown tf) acc) tfs [])\<rparr>"
  using assms by (simp add: calculateOverallProgramReadiness_def Let_def fold_add_sum_list)

lemma sample_task_forces:
  "totalMembers (calculateTaskForceReadiness 0 ''a'' ''Alpha'' [member ''FDE'' 1, member ''AI-PM'' 4] None) = 2"
  "TaskForceReadiness.overallReadiness
     (calculateTaskForceReadiness 0 ''a'' ''Alpha'' [member ''FDE'' 1, member ''AI-PM'' 4] None) = 63"
  "totalMembers (calculateTaskForceReadiness 0 ''b'' ''Beta'' [member ''FDE'' 2] None) = 1"
  "TaskForceReadiness.overallReadiness
     (calculateTaskForceReadiness 0 ''b'' ''Beta'' [member ''FDE'' 2] None) = 50"
  by code_simp+

lemma sample_weighted_average: "Math_round (js_div 176 3) = 59"
  by code_simp

text \<open>
  C10.  For the empty list of task forces the summary is all zero.  When the total
  number of members is positive, \<open>overallReadiness\<close> is the rounded quotient of the sum
  of \<open>overallReadiness * totalMembers\<close> by the total number of members, that is the
  rounded average weighted by members; \<open>totalParticipants\<close> is that total, and the task
  forces on track and at risk add up to the number of task forces.  The quotient is a
  double; for a weighted sum from 0 to below \<open>2^52\<close> the result is the exact quotient
  rounded to the nearest integer, a half going up.
\<close>

theorem program_readiness_weighted_average:
  "calculateOverallProgramReadiness [] =
     \<lparr>overallReadiness = Finite 0, totalParticipants = 0, taskForcesOnTrack = 0,
      taskForcesAtRisk = 0, roleAnalysis = []\<rparr> \<and>
   (0 < sum_list (map totalMembers tfs) \<longrightarrow>
      ProgramReadiness.overallReadiness (calculateOverallProgramReadiness tfs) =
        Finite (Math_round (js_div
          (of_int (sum_list (map (\<lambda>tf. TaskForceReadiness.overallReadiness tf * totalMembers tf) tfs)))
          (of_int (sum_list (map totalMembers tfs))))) \<and>
      totalParticipants (calculateOverallProgramReadiness tfs) = sum_list (map totalMembers tfs) \<and>
      taskForcesOnTrack (calculateOverallProgramReadiness tfs)
        + taskForcesAtRisk (calculateOverallProgramReadiness tfs) = int (length tfs)) \<and>
   (0 < sum_list (map totalMembers tfs) \<and>
    0 \<le> sum_list (map (\<lambda>tf. TaskForceReadiness.overallReadiness tf * totalMembers tf) tfs) \<and>
    sum_list (map (\<lambda>tf. TaskForceReadiness.overallReadiness tf * totalMembers tf) tfs) < 2 ^ 52 \<longrightarrow>
      ProgramReadiness.overallReadiness (calculateOverallProgramReadiness tfs) =
        Finite ((2 * sum_list (map (\<lambda>tf. TaskForceReadiness.overallReadiness tf * totalMembers tf) tfs)
                  + sum_list (map totalMembers tfs))
                div (2 * sum_list (map totalMembers tfs))))"
proof (intro conjI impI)
  show "calculateOverallProgramReadiness [] =
     \<lparr>overallReadiness = Finite 0, totalParticipants = 0, taskForcesOnTrack = 0,
      taskForcesAtRisk = 0, roleAnalysis = []\<rparr>"
    by (simp add: calculateOverallProgramReadiness_def)
next
  assume pos: "0 < sum_list (map totalMembers tfs)"
  then have ne: "tfs \<noteq> []" by auto
  show "ProgramReadiness.overallReadiness (calculateOverallProgramReadiness tfs) =
        Finite (Math_round (js_div
          (of_int (sum_list (map (\<lambda>tf. TaskForceReadiness.overallReadiness tf * totalMembers tf) tfs)))
          (of_int (sum_list (map totalMembers tfs)))))"
    using pos by (simp add: program_readiness_nonempty [OF ne] round_quotient_def)
  show "totalParticipants (calculateOverallProgramReadiness tfs) = sum_list (map totalMembers tfs)"
    by (simp add: program_readiness_nonempty [OF ne])
  show "taskForcesOnTrack (calculateOverallProgramReadiness tfs)
        + taskForcesAtRisk (calculateOverallProgramReadiness tfs) = int (length tfs)"
    by (simp add: program_readiness_nonempty [OF ne])
next
  let ?W = "sum_list (map (\<lambda>tf. TaskForceReadiness.overallReadiness tf * totalMembers tf) tfs)"
  let ?T = "sum_list (map totalMembers tfs)"
  assume a: "0 < ?T \<and> 0 \<le> ?W \<and> ?W < 2 ^ 52"
  then have ne: "tfs \<noteq> []" by auto
  have "Math_round (js_div (of_int ?W) (of_int ?T)) = (2 * ?W + ?T) div (2 * ?T)"
    unfolding js_div_def using a by (intro Math_round_double_quotient) simp_all
  then show "ProgramReadiness.overallReadiness (calculateOverallProgramReadiness tfs) =
        Finite ((2 * ?W + ?T) div (2 * ?T))"
    using a by (simp add: program_readiness_nonempty [OF ne] round_quotient_def)
qed

theorem program_readiness_weighted_average_witness:
  "0 < sum_list (map totalMembers
         [calculateTaskForceReadiness 0 ''a'' ''Alpha'' [member ''FDE'' 1, member ''AI-PM'' 4] None,
          calculateTaskForceReadiness 0 ''b'' ''Beta'' [member ''FDE'' 2] None]) \<and>
   ProgramReadiness.overallReadiness (calculateOverallProgramReadiness
         [calculateTaskForceReadiness 0 ''a'' ''Alpha'' [member ''FDE'' 1, member ''AI-PM'' 4] None,
          calculateTaskForceReadiness 0 ''b'' ''Beta'' [member ''FDE'' 2] None]) = Finite 59 \<and>
   totalParticipants (calculateOverallProgramReadiness
         [calculateTaskForceReadiness 0 ''a'' ''Alpha'' [member ''FDE'' 1, member ''AI-PM'' 4] None,
          calculateTaskForceReadiness 0 ''b'' ''Beta'' [member ''FDE'' 2] None]) = 3"
  using program_readiness_weighted_average
    [of "[calculateTaskForceReadiness 0 ''a'' ''Alpha'' [member ''FDE'' 1, member ''AI-PM'' 4] None,
          calculateTaskForceReadiness 0 ''b'' ''Beta'' [member ''FDE'' 2] None]"]
  by (simp add: sample_task_forces sample_weighted_average)


section \<open>The sweep\<close>

lemma sweep_map_filter:
  "sweep ok i rs acc = acc @ List.map_filter (reported ok) (enumerate i rs)"
proof (induction rs arbitrary: i acc)
  case Nil
  then show ?case by (simp add: List.map_filter_simps)
next
  case (Cons m rs)
  show ?case
    by (cases "calculateNewLevel m")
       (simp_all add: Cons.IH List.map_filter_simps reported_def)
qed

lemma reported_None_iff: "reported ok (i, m) \<noteq> None \<longleftrightarrow> calculateNewLevel m \<noteq> None \<and> ok i"
  by (cases "calculateNewLevel m") (simp_all add: reported_def)

lemma length_map_filter_reported:
  "length (List.map_filter (reported ok) (enumerate 0 rs)) = length (applied ok rs)"
proof -
  have "(\<lambda>x. reported ok x \<noteq> None) = (\<lambda>(i, m). calculateNewLevel m \<noteq> None \<and> ok i)"
    using reported_None_iff by (intro ext) (auto split: prod.splits)
  then show ?thesis by (simp add: List.map_filter_def applied_def)
qed

lemma reported_mem:
  assumes "i < length rs" and "calculateNewLevel (rs ! i) = Some lu" and "ok i"
  shows "\<lparr>participantId = MasteryRecord.participant_id (rs ! i),
          oldLevel = MasteryRecord.mastery_level (rs ! i),
          newLevel = LevelUp.newLevel lu,
          newClearance = LevelUp.newClearance lu\<rparr>
         \<in> set (List.map_filter (reported ok) (enumerate 0 rs))"
proof -
  have "(i, rs ! i) \<in> set (enumerate 0 rs)" using assms(1) by (simp add: in_set_enumerate_eq)
  moreover have "reported ok (i, rs ! i) = Some \<lparr>participantId = MasteryRecord.participant_id (rs ! i),
          oldLevel = MasteryRecord.mastery_level (rs ! i),
          newLevel = LevelUp.newLevel lu,
          newClearance = LevelUp.newClearance lu\<rparr>"
    using assms(2,3) by (simp add: reported_def)
  ultimately show ?thesis by (force simp add: List.map_filter_def)
qed

lemma GET_authorized:
  assumes "authorized h s"
  shows "GET h s (FetchData d) ok =
     JsonSummary \<lparr>success = True,
       processed = (case d of Some rs \<Rightarrow> length rs | None \<Rightarrow> 0),
       updated = length (sweep ok 0 (case d of Some rs \<Rightarrow> rs | None \<Rightarrow> []) []),
       updates = sweep ok 0 (case d of Some rs \<Rightarrow> rs | None \<Rightarrow> []) []\<rparr>"
  using assms by (cases s) (auto simp add: GET_def authorized_def Let_def)

text \<open>
  C9.  On an authorized run whose fetch succeeds, the endpoint answers with the
  summary: \<open>processed\<close> is the number of fetched records and \<open>updated\<close> the number of
  level-ups that the database accepted.  Every record is evaluated, whatever happened
  to the records before it: each record that qualifies and whose update succeeds is in
  \<open>updates\<close>.  When the data is \<open>null\<close> both counts are 0.
\<close>

theorem sweep_partial_success:
  assumes "authorized h s"
  shows "GET h s (FetchData (Some rs)) ok =
           JsonSummary \<lparr>success = True, processed = length rs,
                        updated = length (applied ok rs),
                        updates = List.map_filter (reported ok) (enumerate 0 rs)\<rparr> \<and>
         (\<forall>i lu. i < length rs \<and> calculateNewLevel (rs ! i) = Some lu \<and> ok i \<longrightarrow>
            \<lparr>participantId = MasteryRecord.participant_id (rs ! i),
             oldLevel = MasteryRecord.mastery_level (rs ! i),
             newLevel = LevelUp.newLevel lu,
             newClearance = LevelUp.newClearance lu\<rparr>
            \<in> set (List.map_filter (reported ok) (enumerate 0 rs))) \<and>
         GET h s (FetchData None) ok =
           JsonSummary \<lparr>success = True, processed = 0, updated = 0, updates = []\<rparr>"
  using GET_authorized [OF assms] reported_mem
  by (simp add: sweep_map_filter length_map_filter_reported List.map_filter_simps applied_def)

theorem sweep_partial_success_witness:
  "authorized (Some ''Bearer k'') (Some ''k'') \<and>
   GET (Some ''Bearer k'') (Some ''k'') (FetchData (Some [trainee, trainee])) (\<lambda>i. i \<noteq> 0) =
     JsonSummary \<lparr>success = True, processed = 2, updated = 1,
       updates = [\<lparr>participantId = ''p'', oldLevel = 1, newLevel = 2,
                   newClearance = ''FIELD_TRAINEE''\<rparr>]\<rparr>"
proof -
  have a: "authorized (Some ''Bearer k'') (Some ''k'')" by (simp add: authorized_def)
  have c: "calculateNewLevel trainee = Some \<lparr>LevelUp.newLevel = 2, newClearance = ''FIELD_TRAINEE''\<rparr>"
    by (simp add: calculateNewLevel_def MASTERY_THRESHOLDS_def or_zero_def Let_def trainee_def)
  have t: "MasteryRecord.participant_id trainee = ''p''" "MasteryRecord.mastery_level trainee = 1"
    by (simp_all add: trainee_def)
  show ?thesis
    using a sweep_partial_success [OF a, of "[trainee, trainee]" "\<lambda>i. i \<noteq> 0"]
    by (simp add: applied_def reported_def List.map_filter_simps c t)
qed


section \<open>Rejoining the live session\<close>











text \<open>
  A broadcast that omits a field is completed from the captured state.  Two partial
  broadcasts that arrive before the effect has run again are both completed from the
  state captured before the first: the instructor, who merges each into the own
  state, is at step 5 in the lab; the view that started with the instructor at step 1
  of the briefing holds step 1 in the lab, and step 5 only if the effect ran in between.
\<close>

lemma partial_broadcasts_stale:
  "sessionState (run
      [Fetched \<lparr>SessionState.currentStep = 1, currentSection = ''briefing'', isActive = True\<rparr>,
       EffectRun,
       StateUpdate \<lparr>StatePayload.currentStep = Some 5, currentSection = None, isActive = None\<rparr>,
       StateUpdate \<lparr>StatePayload.currentStep = None, currentSection = Some ''lab'', isActive = None\<rparr>]
      (mount \<lparr>current_step = Some 1, current_section = Some ''briefing''\<rparr>))
   = Some \<lparr>SessionState.currentStep = 1, currentSection = ''lab'', isActive = True\<rparr>"
  "sessionState (run
      [Fetched \<lparr>SessionState.currentStep = 1, currentSection = ''briefing'', isActive = True\<rparr>,
       EffectRun,
       StateUpdate \<lparr>StatePayload.currentStep = Some 5, currentSection = None, isActive = None\<rparr>,
       EffectRun,
       StateUpdate \<lparr>StatePayload.currentStep = None, currentSection = Some ''lab'', isActive = None\<rparr>]
      (mount \<lparr>current_step = Some 1, current_section = Some ''briefing''\<rparr>))
   = Some \<lparr>SessionState.currentStep = 5, currentSection = ''lab'', isActive = True\<rparr>"
  "snd (sendStateUpdate True True
      \<lparr>StatePayload.currentStep = None, currentSection = Some ''lab'', isActive = None\<rparr>
      (snd (sendStateUpdate True True
         \<lparr>StatePayload.currentStep = Some 5, currentSection = None, isActive = None\<rparr>
         (Some \<lparr>SessionState.currentStep = 1, currentSection = ''briefing'', isActive = True\<rparr>))))
   = Some \<lparr>SessionState.currentStep = 5, currentSection = ''lab'', isActive = True\<rparr>"
  by (simp_all add: run_def mount_def on_fetched_def effect_run_def on_state_update_def
      sendStateUpdate_def Let_def)




end
